theory Spec2Isabelle
  imports Complex_Main "HOL-Library.Sublist"
begin

section \<open>Python values\<close>

text \<open>
  A Python \<open>str\<close> is a sequence of code points. It is modelled by \<open>string\<close>, one
  \<open>char\<close> per code point, so the model covers the texts whose code points are below
  256. On these texts \<open>str.lower\<close>, \<open>str.strip\<close> and the substring test are the
  functions below.
\<close>

definition lower_char :: "char \<Rightarrow> char" where
  "lower_char c =
     (let n = (of_char c :: nat)
      in if (65 \<le> n \<and> n \<le> 90) \<or> (192 \<le> n \<and> n \<le> 222 \<and> n \<noteq> 215)
         then char_of (n + 32) else c)"

definition py_lower :: "string \<Rightarrow> string" where
  "py_lower s = map lower_char s"

text \<open>\<open>str.isspace\<close> on one code point below 256.\<close>

definition py_isspace :: "char \<Rightarrow> bool" where
  "py_isspace c =
     (let n = (of_char c :: nat)
      in (9 \<le> n \<and> n \<le> 13) \<or> (28 \<le> n \<and> n \<le> 32) \<or> n = 133 \<or> n = 160)"

definition py_strip :: "string \<Rightarrow> string" where
  "py_strip s = rev (dropWhile py_isspace (rev (dropWhile py_isspace s)))"

text \<open>\<open>s.startswith(p)\<close> and \<open>s.endswith(p)\<close>.\<close>

definition startswith :: "string \<Rightarrow> string \<Rightarrow> bool" where
  "startswith s p = (take (length p) s = p)"

definition endswith :: "string \<Rightarrow> string \<Rightarrow> bool" where
  "endswith s p = (length p \<le> length s \<and> drop (length s - length p) s = p)"

text \<open>\<open>k in s\<close> for two strings: \<open>k\<close> occurs in \<open>s\<close> as a contiguous block.\<close>

fun py_in :: "string \<Rightarrow> string \<Rightarrow> bool" where
  "py_in k [] = (k = [])"
| "py_in k (c # s) = (startswith (c # s) k \<or> py_in k s)"

text \<open>
  The values \<open>json.loads\<close> and \<open>json.load\<close> return. A float is a finite value or
  one of the three non-finite ones the decoder accepts. A \<open>dict\<close> is the list of its
  items in insertion order; \<open>map_of\<close> reads a key.
\<close>

datatype pyfloat = Finite real | PosInf | NegInf | NaN

datatype json =
    JNull
  | JBool bool
  | JInt int
  | JFloat pyfloat
  | JStr string
  | JArr "json list"
  | JObj "(string \<times> json) list"

type_synonym dict = "(string \<times> json) list"

text \<open>
  The exceptions of the model, all subclasses of \<open>Exception\<close>. \<open>OtherError\<close> is any
  other subclass, by name.
\<close>

datatype exn =
    FileNotFoundError
  | JSONDecodeError
  | ValueError
  | TypeError
  | AttributeError
  | KeyError
  | UnboundLocalError
  | OtherError string

text \<open>\<open>v[key]\<close> for a \<open>str\<close> key: only a \<open>dict\<close> can be read that way.\<close>

fun subscript :: "json \<Rightarrow> string \<Rightarrow> exn + json" where
  "subscript (JObj kvs) key =
     (case map_of kvs key of None \<Rightarrow> Inl KeyError | Some v \<Rightarrow> Inr v)"
| "subscript _ key = Inl TypeError"

text \<open>\<open>v.lower()\<close>: only a \<open>str\<close> has the method.\<close>

fun str_lower :: "json \<Rightarrow> exn + string" where
  "str_lower (JStr s) = Inr (py_lower s)"
| "str_lower _ = Inl AttributeError"

text \<open>
  The items \<open>for x in v\<close> visits: the elements of a list, the keys of a \<open>dict\<close>, the
  characters of a \<open>str\<close>; nothing else is iterable.
\<close>

fun iterate :: "json \<Rightarrow> exn + json list" where
  "iterate (JArr xs) = Inr xs"
| "iterate (JObj kvs) = Inr (map (\<lambda>kv. JStr (fst kv)) kvs)"
| "iterate (JStr s) = Inr (map (\<lambda>c. JStr [c]) s)"
| "iterate _ = Inl TypeError"

text \<open>\<open>v.get(key, default)\<close>: only a \<open>dict\<close> has the method.\<close>

fun dict_get :: "json \<Rightarrow> string \<Rightarrow> json \<Rightarrow> exn + json" where
  "dict_get (JObj kvs) key dflt =
     (case map_of kvs key of None \<Rightarrow> Inr dflt | Some v \<Rightarrow> Inr v)"
| "dict_get _ key dflt = Inl AttributeError"

text \<open>Truth value of a value in a condition.\<close>

fun truthy :: "json \<Rightarrow> bool" where
  "truthy JNull = False"
| "truthy (JBool b) = b"
| "truthy (JInt n) = (n \<noteq> 0)"
| "truthy (JFloat (Finite r)) = (r \<noteq> 0)"
| "truthy (JFloat _) = True"
| "truthy (JStr s) = (s \<noteq> [])"
| "truthy (JArr xs) = (xs \<noteq> [])"
| "truthy (JObj kvs) = (kvs \<noteq> [])"

text \<open>
  \<open>v > n\<close> for an \<open>int\<close> literal \<open>n\<close>: numbers compare by value (\<open>True\<close> is 1,
  \<open>False\<close> is 0, a NaN is greater than nothing); any other value raises
  \<open>TypeError\<close>.
\<close>

fun py_gt :: "json \<Rightarrow> int \<Rightarrow> exn + bool" where
  "py_gt (JInt m) n = Inr (m > n)"
| "py_gt (JBool b) n = Inr ((if b then 1 else 0) > n)"
| "py_gt (JFloat (Finite r)) n = Inr (r > of_int n)"
| "py_gt (JFloat PosInf) n = Inr True"
| "py_gt (JFloat NegInf) n = Inr False"
| "py_gt (JFloat NaN) n = Inr False"
| "py_gt _ n = Inl TypeError"

section \<open>The vendor directory (both modules)\<close>

text \<open>
  What opening \<open>vendors.json\<close> and decoding it does: it raises, or it returns the
  decoded value.
\<close>

datatype load_outcome = LoadRaises exn | LoadReturns json

text \<open>
  The loop \<open>for vendor in vendors\<close> of \<open>get_vendor_by_category\<close>, the same in both
  modules: the name of the first vendor whose category, lower-cased, is the wanted one
  lower-cased; the sentinel after the loop.
\<close>

fun vendor_loop :: "string \<Rightarrow> json list \<Rightarrow> exn + json" where
  "vendor_loop category [] = Inr (JStr ''Auto-assigned vendor'')"
| "vendor_loop category (vendor # vendors) =
     (case subscript vendor ''category'' of
        Inl e \<Rightarrow> Inl e
      | Inr c \<Rightarrow>
          (case str_lower c of
             Inl e \<Rightarrow> Inl e
           | Inr cl \<Rightarrow>
               if cl = py_lower category then subscript vendor ''name''
               else vendor_loop category vendors))"

section \<open>mock_logic.py\<close>

definition mock_load_vendors :: "load_outcome \<Rightarrow> exn + json" where
  "mock_load_vendors f =
     (case f of
        LoadReturns v \<Rightarrow> Inr v
      | LoadRaises e \<Rightarrow> if e = FileNotFoundError then Inr (JArr []) else Inl e)"

definition mock_get_vendor_by_category :: "load_outcome \<Rightarrow> string \<Rightarrow> exn + json" where
  "mock_get_vendor_by_category f category =
     (case mock_load_vendors f of
        Inl e \<Rightarrow> Inl e
      | Inr vendors \<Rightarrow>
          (case iterate vendors of
             Inl e \<Rightarrow> Inl e
           | Inr vs \<Rightarrow> vendor_loop category vs))"

definition plumbing_keywords :: "string list" where
  "plumbing_keywords =
     [''leak'', ''water'', ''plumbing'', ''pipe'', ''drain'', ''toilet'', ''sink'']"

definition ac_keywords :: "string list" where
  "ac_keywords =
     [''ac'', ''air'', ''cool'', ''conditioning'', ''temperature'', ''hot'', ''cold'']"

definition electrical_keywords :: "string list" where
  "electrical_keywords =
     [''electric'', ''power'', ''light'', ''socket'', ''outlet'', ''switch'']"

text \<open>\<open>any(keyword in text_lower for keyword in kws)\<close>.\<close>

definition any_keyword :: "string list \<Rightarrow> string \<Rightarrow> bool" where
  "any_keyword kws text_lower = list_ex (\<lambda>keyword. py_in keyword text_lower) kws"

text \<open>The three status texts of the two modules.\<close>

definition awaiting_human_approval :: string where
  "awaiting_human_approval = ''Waiting for human approval (cost > 1000 AED)''"

definition auto_assigned :: string where
  "auto_assigned = ''Vendor auto-assigned''"

definition processing_error :: string where
  "processing_error = ''Processing error - please try again or contact support''"

definition mock_analyze_issue :: "load_outcome \<Rightarrow> string \<Rightarrow> exn + dict" where
  "mock_analyze_issue f text =
     (let text_lower = py_lower text in
      if any_keyword plumbing_keywords text_lower then
        (case mock_get_vendor_by_category f ''Plumbing'' of
           Inl e \<Rightarrow> Inl e
         | Inr vendor \<Rightarrow>
             Inr [(''issue_type'', JStr ''Plumbing Leak''),
                  (''priority'', JStr ''HIGH''),
                  (''estimated_cost'', JInt 1500),
                  (''status'', JStr awaiting_human_approval),
                  (''vendor'', vendor)])
      else if any_keyword ac_keywords text_lower then
        (case mock_get_vendor_by_category f ''AC'' of
           Inl e \<Rightarrow> Inl e
         | Inr vendor \<Rightarrow>
             Inr [(''issue_type'', JStr ''AC Maintenance''),
                  (''priority'', JStr ''MEDIUM''),
                  (''estimated_cost'', JInt 600),
                  (''status'', JStr auto_assigned),
                  (''vendor'', vendor)])
      else if any_keyword electrical_keywords text_lower then
        Inr [(''issue_type'', JStr ''Electrical Issue''),
             (''priority'', JStr ''HIGH''),
             (''estimated_cost'', JInt 1200),
             (''status'', JStr awaiting_human_approval),
             (''vendor'', JStr ''Auto-assigned vendor'')]
      else
        (case mock_get_vendor_by_category f ''General'' of
           Inl e \<Rightarrow> Inl e
         | Inr vendor \<Rightarrow>
             Inr [(''issue_type'', JStr ''General Maintenance''),
                  (''priority'', JStr ''LOW''),
                  (''estimated_cost'', JInt 300),
                  (''status'', JStr auto_assigned),
                  (''vendor'', vendor)]))"

section \<open>ai_agent.py\<close>

text \<open>
  What the module works with besides its argument: the credential read from the
  environment when the module is loaded, the constant \<open>SYSTEM_PROMPT\<close> (a long text
  that no property depends on, kept as a field), the remote model, the decoder
  \<open>json.loads\<close> (\<open>None\<close> when it raises \<open>JSONDecodeError\<close>) and the vendors file.

  What the remote model does on a prompt: building the model or \<open>generate_content\<close>
  raises, so that \<open>response\<close> is never bound; or \<open>response\<close> is bound and reading
  \<open>response.text\<close> raises; or \<open>response.text\<close> is a text.
\<close>

datatype remote_outcome = CallRaises exn | TextRaises exn | Reply string

record services =
  GEMINI_API_KEY :: "string option"
  SYSTEM_PROMPT :: string
  generate_content :: "string \<Rightarrow> remote_outcome"
  json_loads :: "string \<Rightarrow> json option"
  vendors_json :: load_outcome

text \<open>The records the module writes to its logger, in order.\<close>

datatype log_entry =
    VendorsNotFound
  | GeminiAnalysis json
  | ParseFailed
  | RawResponse string
  | ApiCallFailed exn
  | FinalAnalysis dict
  | AnalyzeError exn

text \<open>\<open>not GEMINI_API_KEY\<close> holds for \<open>None\<close> and for the empty string.\<close>

definition key_missing :: "string option \<Rightarrow> bool" where
  "key_missing k = (case k of None \<Rightarrow> True | Some s \<Rightarrow> s = [])"

definition full_prompt :: "services \<Rightarrow> string \<Rightarrow> string" where
  "full_prompt sv user_message =
     SYSTEM_PROMPT sv @ [CHR 0x0A, CHR 0x0A] @ ''Tenant Message: '' @ user_message
       @ [CHR 0x0A, CHR 0x0A] @ ''Provide your analysis as JSON:''"

text \<open>
  The cleaning of the reply in \<open>call_gemini\<close>: strip, drop a leading
  \<open>```json\<close>, then a leading \<open>```\<close>, then a trailing \<open>```\<close>, strip again. The three
  tests are three \<open>if\<close>s in a row, each on the text the one before it left.
\<close>

definition clean_response :: "string \<Rightarrow> string" where
  "clean_response text =
     (let t0 = py_strip text;
          t1 = (if startswith t0 ''```json'' then drop 7 t0 else t0);
          t2 = (if startswith t1 ''```'' then drop 3 t1 else t1);
          t3 = (if endswith t2 ''```'' then take (length t2 - 3) t2 else t2)
      in py_strip t3)"

definition fallback_classification :: json where
  "fallback_classification =
     JObj [(''issue_type'', JStr ''General Maintenance''),
           (''priority'', JStr ''MEDIUM''),
           (''estimated_cost'', JInt 500),
           (''reasoning'', JStr ''AI response parsing failed, using default classification''),
           (''needs_clarification'', JBool True),
           (''clarification_question'',
              JStr ''Could you please provide more details about the issue?'')]"

text \<open>
  \<open>call_gemini\<close>. The credential test is before the \<open>try\<close>. A
  \<open>JSONDecodeError\<close> from the decoder is answered by the fallback. One raised before
  the decoder runs reaches the same handler, whose second log line reads
  \<open>response.text\<close>: with \<open>response\<close> unbound that raises \<open>UnboundLocalError\<close>,
  and with \<open>response.text\<close> raising it raises the \<open>JSONDecodeError\<close> again. Every
  other exception is logged and raised again.
\<close>

definition call_gemini :: "services \<Rightarrow> string \<Rightarrow> log_entry list \<times> (exn + json)" where
  "call_gemini sv user_message =
     (if key_missing (GEMINI_API_KEY sv) then ([], Inl ValueError)
      else
        (case generate_content sv (full_prompt sv user_message) of
           CallRaises e \<Rightarrow>
             if e = JSONDecodeError then ([ParseFailed], Inl UnboundLocalError)
             else ([ApiCallFailed e], Inl e)
         | TextRaises e \<Rightarrow>
             if e = JSONDecodeError then ([ParseFailed], Inl JSONDecodeError)
             else ([ApiCallFailed e], Inl e)
         | Reply text \<Rightarrow>
             (case json_loads sv (clean_response text) of
                None \<Rightarrow> ([ParseFailed, RawResponse text], Inr fallback_classification)
              | Some ai_result \<Rightarrow> ([GeminiAnalysis ai_result], Inr ai_result))))"

definition ai_load_vendors :: "load_outcome \<Rightarrow> log_entry list \<times> (exn + json)" where
  "ai_load_vendors f =
     (case f of
        LoadReturns v \<Rightarrow> ([], Inr v)
      | LoadRaises e \<Rightarrow>
          if e = FileNotFoundError then ([VendorsNotFound], Inr (JArr [])) else ([], Inl e))"

definition category_map :: "(string \<times> string) list" where
  "category_map =
     [(''plumbing'', ''Plumbing''),
      (''ac'', ''AC''),
      (''electrical'', ''General''),
      (''general'', ''General''),
      (''general maintenance'', ''General'')]"

text \<open>\<open>category_map.get(category.lower(), "General")\<close> on the lower-cased text.\<close>

definition vendor_category_of :: "string \<Rightarrow> string" where
  "vendor_category_of category_lower =
     (case map_of category_map category_lower of None \<Rightarrow> ''General'' | Some c \<Rightarrow> c)"

definition ai_get_vendor_by_category ::
  "load_outcome \<Rightarrow> json \<Rightarrow> log_entry list \<times> (exn + json)" where
  "ai_get_vendor_by_category f category =
     (case ai_load_vendors f of
        (lg, Inl e) \<Rightarrow> (lg, Inl e)
      | (lg, Inr vendors) \<Rightarrow>
          (case str_lower category of
             Inl e \<Rightarrow> (lg, Inl e)
           | Inr category_lower \<Rightarrow>
               (case iterate vendors of
                  Inl e \<Rightarrow> (lg, Inl e)
                | Inr vs \<Rightarrow> (lg, vendor_loop (vendor_category_of category_lower) vs))))"

text \<open>
  The body of the \<open>try\<close> of \<open>analyze_issue\<close> once \<open>call_gemini\<close> has returned
  \<open>ai_result\<close>: the six reads with their defaults, the threshold test, the vendor,
  the result.
\<close>

definition decision_step :: "load_outcome \<Rightarrow> json \<Rightarrow> log_entry list \<times> (exn + dict)" where
  "decision_step f ai_result =
     (case dict_get ai_result ''issue_type'' (JStr ''General Maintenance'') of
        Inl e \<Rightarrow> ([], Inl e) | Inr issue_type \<Rightarrow>
     (case dict_get ai_result ''priority'' (JStr ''MEDIUM'') of
        Inl e \<Rightarrow> ([], Inl e) | Inr priority \<Rightarrow>
     (case dict_get ai_result ''estimated_cost'' (JInt 500) of
        Inl e \<Rightarrow> ([], Inl e) | Inr estimated_cost \<Rightarrow>
     (case dict_get ai_result ''reasoning'' (JStr []) of
        Inl e \<Rightarrow> ([], Inl e) | Inr reasoning \<Rightarrow>
     (case dict_get ai_result ''needs_clarification'' (JBool False) of
        Inl e \<Rightarrow> ([], Inl e) | Inr needs_clarification \<Rightarrow>
     (case dict_get ai_result ''clarification_question'' JNull of
        Inl e \<Rightarrow> ([], Inl e) | Inr clarification_question \<Rightarrow>
     (case py_gt estimated_cost 1000 of
        Inl e \<Rightarrow> ([], Inl e) | Inr exceeds \<Rightarrow>
       (let status =
              (if exceeds then awaiting_human_approval
               else if truthy needs_clarification then auto_assigned
               else auto_assigned)
        in case ai_get_vendor_by_category f issue_type of
             (lg, Inl e) \<Rightarrow> (lg, Inl e)
           | (lg, Inr vendor) \<Rightarrow>
               (let result =
                      [(''issue_type'', issue_type),
                       (''priority'', priority),
                       (''estimated_cost'', estimated_cost),
                       (''status'', JStr status),
                       (''vendor'', vendor),
                       (''needs_clarification'', needs_clarification),
                       (''clarification_question'', clarification_question)]
                in (lg @ [FinalAnalysis result], Inr result))))))))))"

definition processing_error_decision :: dict where
  "processing_error_decision =
     [(''issue_type'', JStr ''General Maintenance''),
      (''priority'', JStr ''MEDIUM''),
      (''estimated_cost'', JInt 500),
      (''status'', JStr processing_error),
      (''vendor'', JStr ''Auto-assigned vendor'')]"

text \<open>\<open>analyze_issue\<close>: the \<open>try\<close> and its catch-all handler.\<close>

definition ai_analyze_issue :: "services \<Rightarrow> string \<Rightarrow> log_entry list \<times> dict" where
  "ai_analyze_issue sv text =
     (case call_gemini sv text of
        (lg, Inl e) \<Rightarrow> (lg @ [AnalyzeError e], processing_error_decision)
      | (lg, Inr ai_result) \<Rightarrow>
          (case decision_step (vendors_json sv) ai_result of
             (lg2, Inl e) \<Rightarrow> (lg @ lg2 @ [AnalyzeError e], processing_error_decision)
           | (lg2, Inr result) \<Rightarrow> (lg @ lg2, result)))"

section \<open>bot.py\<close>

text \<open>
  \<open>format_response\<close>. \<open>str_of\<close> is what an f-string prints for a value, and
  \<open>tools\<close> is the first code point of the heading, which is above 255.
\<close>

definition format_response :: "(json \<Rightarrow> string) \<Rightarrow> string \<Rightarrow> dict \<Rightarrow> exn + string" where
  "format_response str_of tools analysis =
     (case subscript (JObj analysis) ''issue_type'' of Inl e \<Rightarrow> Inl e | Inr issue_type \<Rightarrow>
     (case subscript (JObj analysis) ''priority'' of Inl e \<Rightarrow> Inl e | Inr priority \<Rightarrow>
     (case subscript (JObj analysis) ''estimated_cost'' of Inl e \<Rightarrow> Inl e | Inr cost \<Rightarrow>
     (case subscript (JObj analysis) ''status'' of Inl e \<Rightarrow> Inl e | Inr status \<Rightarrow>
       (let response =
              tools @ '' **Issue Received**'' @ [CHR 0x0A, CHR 0x0A]
              @ ''**Type:** '' @ str_of issue_type @ [CHR 0x0A]
              @ ''**Priority:** '' @ str_of priority @ [CHR 0x0A]
              @ ''**Estimated Cost:** AED '' @ str_of cost @ [CHR 0x0A, CHR 0x0A]
              @ ''**Status:** '' @ str_of status @ [CHR 0x0A]
        in case map_of analysis ''vendor'' of
             None \<Rightarrow> Inr response
           | Some vendor \<Rightarrow>
               if truthy vendor then
                 (case str_lower status of
                    Inl e \<Rightarrow> Inl e
                  | Inr status_lower \<Rightarrow>
                      if py_in ''auto-assigned'' status_lower
                      then Inr (response @ ''**Vendor:** '' @ str_of vendor @ [CHR 0x0A])
                      else Inr response)
               else Inr response)))))"

section \<open>The vocabulary of the specification\<close>

text \<open>
  The vendor directory of the specification: a sequence of entries, each with a category
  (a text) and a name. \<open>directory_of\<close> reads it off what loading the file did: an absent
  file is the empty directory, a decoded list of such entries is the directory of their
  (category, name) pairs, and anything else is no directory.
\<close>

fun vendor_entry :: "json \<Rightarrow> (string \<times> json) option" where
  "vendor_entry (JObj kvs) =
     (case map_of kvs ''category'' of
        Some (JStr c) \<Rightarrow>
          (case map_of kvs ''name'' of Some n \<Rightarrow> Some (c, n) | None \<Rightarrow> None)
      | _ \<Rightarrow> None)"
| "vendor_entry _ = None"

fun entries :: "json list \<Rightarrow> (string \<times> json) list option" where
  "entries [] = Some []"
| "entries (v # vs) =
     (case vendor_entry v of
        None \<Rightarrow> None
      | Some e \<Rightarrow> (case entries vs of None \<Rightarrow> None | Some es \<Rightarrow> Some (e # es)))"

definition directory_of :: "load_outcome \<Rightarrow> (string \<times> json) list option" where
  "directory_of f =
     (case f of
        LoadRaises e \<Rightarrow> if e = FileNotFoundError then Some [] else None
      | LoadReturns (JArr vs) \<Rightarrow> entries vs
      | LoadReturns _ \<Rightarrow> None)"

text \<open>
  The name of the first entry of a directory whose category is the wanted one, letter
  case apart; the sentinel when there is none.
\<close>

definition first_match :: "string \<Rightarrow> (string \<times> json) list \<Rightarrow> json" where
  "first_match category dir =
     (case find (\<lambda>(c, n). py_lower c = py_lower category) dir of
        None \<Rightarrow> JStr ''Auto-assigned vendor''
      | Some (c, n) \<Rightarrow> n)"

text \<open>The values that compare with a number: \<open>int\<close>, \<open>float\<close> and \<open>bool\<close>.\<close>

fun is_number :: "json \<Rightarrow> bool" where
  "is_number (JInt n) = True"
| "is_number (JFloat x) = True"
| "is_number (JBool b) = True"
| "is_number _ = False"

text \<open>
  The invariant the specification gives for a RawClassification: the estimated cost is
  at least 0; when clarification is needed the question is a non-empty text; when it is
  not needed (the flag false, or no flag) the question is absent (no key, or null).
\<close>

fun nonnegative :: "json \<Rightarrow> bool" where
  "nonnegative (JInt n) = (0 \<le> n)"
| "nonnegative (JFloat (Finite r)) = (0 \<le> r)"
| "nonnegative (JFloat PosInf) = True"
| "nonnegative _ = False"

definition question_nonempty :: "dict \<Rightarrow> bool" where
  "question_nonempty kvs =
     (case map_of kvs ''clarification_question'' of Some (JStr q) \<Rightarrow> q \<noteq> [] | _ \<Rightarrow> False)"

definition question_absent :: "dict \<Rightarrow> bool" where
  "question_absent kvs =
     (case map_of kvs ''clarification_question'' of
        None \<Rightarrow> True | Some JNull \<Rightarrow> True | _ \<Rightarrow> False)"

definition raw_invariant :: "json \<Rightarrow> bool" where
  "raw_invariant raw =
     (case raw of
        JObj kvs \<Rightarrow>
          (case map_of kvs ''estimated_cost'' of None \<Rightarrow> False | Some c \<Rightarrow> nonnegative c)
          \<and> (case map_of kvs ''needs_clarification'' of
                None \<Rightarrow> question_absent kvs
              | Some (JBool b) \<Rightarrow> if b then question_nonempty kvs else question_absent kvs
              | _ \<Rightarrow> False)
      | _ \<Rightarrow> False)"

text \<open>
  What is assumed of \<open>json.loads\<close>, the decoder of the Python library. A JSON text is
  a value between two runs of the four white-space characters of JSON (space, tab, line
  feed, carriage return), and the decoder skips both runs: it gives the same answer on
  a text and on the text without them. A text it accepts has a value in between, which
  begins with one of \<open>{ [ " -\<close>, a digit, or the first letter of \<open>true\<close>,
  \<open>false\<close>, \<open>null\<close>, \<open>NaN\<close>, \<open>Infinity\<close>, and ends with one of \<open>} ] "\<close>,
  a digit, or the last letter of one of these words.
\<close>

definition json_ws :: "char \<Rightarrow> bool" where
  "json_ws c = (c = CHR '' '' \<or> c = CHR 0x09 \<or> c = CHR 0x0A \<or> c = CHR 0x0D)"

definition json_trim :: "string \<Rightarrow> string" where
  "json_trim s = rev (dropWhile json_ws (rev (dropWhile json_ws s)))"

definition value_first :: "char \<Rightarrow> bool" where
  "value_first c = (c \<in> set (''{[-0123456789tfnNI'' @ [CHR 0x22]))"

definition value_last :: "char \<Rightarrow> bool" where
  "value_last c = (c \<in> set (''}]0123456789elNy'' @ [CHR 0x22]))"

definition json_decoder :: "(string \<Rightarrow> json option) \<Rightarrow> bool" where
  "json_decoder loads =
     (\<forall>s. loads s = loads (json_trim s)
          \<and> (loads s \<noteq> None \<longrightarrow>
                json_trim s \<noteq> [] \<and> value_first (hd (json_trim s))
                \<and> value_last (last (json_trim s))))"

text \<open>
  A decoder of the three literal names alone. It meets the assumption, which shows that
  the assumption can be met.
\<close>

definition literal_loads :: "string \<Rightarrow> json option" where
  "literal_loads s =
     (let b = json_trim s
      in if b = ''null'' then Some JNull
         else if b = ''true'' then Some (JBool True)
         else if b = ''false'' then Some (JBool False)
         else None)"

section \<open>Strings\<close>

lemma startswith_prefix: "startswith s p = prefix p s"
proof
  assume "startswith s p"
  then have "p = take (length p) s" by (simp add: startswith_def)
  then show "prefix p s" by (metis take_is_prefix)
next
  assume "prefix p s"
  then show "startswith s p" by (auto simp: startswith_def prefix_def)
qed

lemma py_in_sublist: "py_in k s = sublist k s"
  by (induction s) (auto simp: startswith_prefix sublist_Cons_right)

section \<open>The vendor directory\<close>

lemma vendor_entry_Some:
  "vendor_entry v = Some (c, n) \<Longrightarrow>
     subscript v ''category'' = Inr (JStr c) \<and> subscript v ''name'' = Inr n"
  by (cases v) (auto split: option.splits json.splits)

lemma vendor_loop_entries:
  "entries vs = Some es \<Longrightarrow> vendor_loop category vs = Inr (first_match category es)"
proof (induction vs arbitrary: es)
  case Nil
  then show ?case by (simp add: first_match_def)
next
  case (Cons v vs)
  from Cons.prems obtain c n es' where v: "vendor_entry v = Some (c, n)"
    and es': "entries vs = Some es'" and es: "es = (c, n) # es'"
    by (auto split: option.splits)
  from vendor_entry_Some [OF v] Cons.IH [OF es'] show ?case
    by (simp add: es first_match_def)
qed

lemma mock_vendor_directory:
  "directory_of f = Some dir \<Longrightarrow>
     mock_get_vendor_by_category f category = Inr (first_match category dir)"
  by (auto simp: directory_of_def mock_get_vendor_by_category_def mock_load_vendors_def
        vendor_loop_entries first_match_def
      split: load_outcome.splits json.splits if_splits)

lemma ai_vendor_directory:
  "directory_of f = Some dir \<Longrightarrow>
     snd (ai_get_vendor_by_category f (JStr issue_type)) =
       Inr (first_match (vendor_category_of (py_lower issue_type)) dir)"
  by (auto simp: directory_of_def ai_get_vendor_by_category_def ai_load_vendors_def
        vendor_loop_entries first_match_def
      split: load_outcome.splits json.splits if_splits)

section \<open>The decision step\<close>

lemma status_texts_differ:
  "awaiting_human_approval \<noteq> auto_assigned"
  "awaiting_human_approval \<noteq> processing_error"
  "auto_assigned \<noteq> processing_error"
  by (simp_all add: awaiting_human_approval_def auto_assigned_def processing_error_def)

lemma ai_vendor_returns:
  assumes "directory_of f = Some dir"
  shows "\<exists>lg. ai_get_vendor_by_category f (JStr it) =
           (lg, Inr (first_match (vendor_category_of (py_lower it)) dir))"
  using ai_vendor_directory [OF assms, of it]
  by (cases "ai_get_vendor_by_category f (JStr it)") auto

lemma dict_get_obj:
  "dict_get (JObj kvs) key dflt = Inr (case map_of kvs key of None \<Rightarrow> dflt | Some v \<Rightarrow> v)"
  by (simp split: option.splits)

lemma dict_get_not_obj:
  "(\<And>kvs. v \<noteq> JObj kvs) \<Longrightarrow> dict_get v key dflt = Inl AttributeError"
  by (cases v) auto

lemma decision_step_not_obj:
  "(\<And>kvs. ai_result \<noteq> JObj kvs) \<Longrightarrow> decision_step f ai_result = ([], Inl AttributeError)"
  by (simp add: decision_step_def dict_get_not_obj)

lemma decision_step_obj:
  "decision_step f (JObj kvs) =
     (case py_gt (case map_of kvs ''estimated_cost'' of None \<Rightarrow> JInt 500 | Some v \<Rightarrow> v) 1000 of
        Inl e \<Rightarrow> ([], Inl e)
      | Inr exceeds \<Rightarrow>
          (case ai_get_vendor_by_category f
                  (case map_of kvs ''issue_type'' of
                     None \<Rightarrow> JStr ''General Maintenance'' | Some v \<Rightarrow> v) of
             (lg, Inl e) \<Rightarrow> (lg, Inl e)
           | (lg, Inr vendor) \<Rightarrow>
               (lg @ [FinalAnalysis
                  [(''issue_type'',
                      case map_of kvs ''issue_type'' of
                        None \<Rightarrow> JStr ''General Maintenance'' | Some v \<Rightarrow> v),
                   (''priority'',
                      case map_of kvs ''priority'' of None \<Rightarrow> JStr ''MEDIUM'' | Some v \<Rightarrow> v),
                   (''estimated_cost'',
                      case map_of kvs ''estimated_cost'' of None \<Rightarrow> JInt 500 | Some v \<Rightarrow> v),
                   (''status'',
                      JStr (if exceeds then awaiting_human_approval else auto_assigned)),
                   (''vendor'', vendor),
                   (''needs_clarification'',
                      case map_of kvs ''needs_clarification'' of
                        None \<Rightarrow> JBool False | Some v \<Rightarrow> v),
                   (''clarification_question'',
                      case map_of kvs ''clarification_question'' of
                        None \<Rightarrow> JNull | Some v \<Rightarrow> v)]],
                Inr
                  [(''issue_type'',
                      case map_of kvs ''issue_type'' of
                        None \<Rightarrow> JStr ''General Maintenance'' | Some v \<Rightarrow> v),
                   (''priority'',
                      case map_of kvs ''priority'' of None \<Rightarrow> JStr ''MEDIUM'' | Some v \<Rightarrow> v),
                   (''estimated_cost'',
                      case map_of kvs ''estimated_cost'' of None \<Rightarrow> JInt 500 | Some v \<Rightarrow> v),
                   (''status'',
                      JStr (if exceeds then awaiting_human_approval else auto_assigned)),
                   (''vendor'', vendor),
                   (''needs_clarification'',
                      case map_of kvs ''needs_clarification'' of
                        None \<Rightarrow> JBool False | Some v \<Rightarrow> v),
                   (''clarification_question'',
                      case map_of kvs ''clarification_question'' of
                        None \<Rightarrow> JNull | Some v \<Rightarrow> v)])))"
  unfolding decision_step_def dict_get_obj
  by (simp add: Let_def split: sum.splits prod.splits)

lemma decision_step_typed:
  assumes c: "dict_get ai_result ''estimated_cost'' (JInt 500) = Inr c"
    and b: "py_gt c 1000 = Inr b"
    and it: "dict_get ai_result ''issue_type'' (JStr ''General Maintenance'') = Inr (JStr it)"
    and dir: "directory_of f = Some dir"
  shows "\<exists>lg d. decision_step f ai_result = (lg, Inr d)
           \<and> map_of d ''estimated_cost'' = Some c
           \<and> map_of d ''status'' =
               Some (JStr (if b then awaiting_human_approval else auto_assigned))"
proof -
  obtain kvs where obj: "ai_result = JObj kvs"
    using c by (cases ai_result) auto
  have c': "(case map_of kvs ''estimated_cost'' of None \<Rightarrow> JInt 500 | Some v \<Rightarrow> v) = c"
    using c unfolding obj dict_get_obj by simp
  have it': "(case map_of kvs ''issue_type'' of None \<Rightarrow> JStr ''General Maintenance''
              | Some v \<Rightarrow> v) = JStr it"
    using it unfolding obj dict_get_obj by simp
  obtain lg where v: "ai_get_vendor_by_category f (JStr it) =
      (lg, Inr (first_match (vendor_category_of (py_lower it)) dir))"
    using ai_vendor_returns [OF dir] by blast
  show ?thesis
    unfolding obj decision_step_obj c' it' b v by simp
qed

lemma decision_step_returns:
  assumes r: "decision_step f ai_result = (lg, Inr d)"
    and c: "dict_get ai_result ''estimated_cost'' (JInt 500) = Inr c"
  shows "map_of d ''estimated_cost'' = Some c
         \<and> (map_of d ''status'' = Some (JStr awaiting_human_approval)) = (py_gt c 1000 = Inr True)
         \<and> (map_of d ''status'' = Some (JStr auto_assigned)) = (py_gt c 1000 = Inr False)"
proof -
  obtain kvs where obj: "ai_result = JObj kvs"
    using c by (cases ai_result) auto
  have c': "(case map_of kvs ''estimated_cost'' of None \<Rightarrow> JInt 500 | Some v \<Rightarrow> v) = c"
    using c unfolding obj dict_get_obj by simp
  obtain b v where b: "py_gt c 1000 = Inr b"
    and d: "d = [(''issue_type'',
                      case map_of kvs ''issue_type'' of
                        None \<Rightarrow> JStr ''General Maintenance'' | Some v \<Rightarrow> v),
                   (''priority'',
                      case map_of kvs ''priority'' of None \<Rightarrow> JStr ''MEDIUM'' | Some v \<Rightarrow> v),
                   (''estimated_cost'', c),
                   (''status'', JStr (if b then awaiting_human_approval else auto_assigned)),
                   (''vendor'', v),
                   (''needs_clarification'',
                      case map_of kvs ''needs_clarification'' of
                        None \<Rightarrow> JBool False | Some v \<Rightarrow> v),
                   (''clarification_question'',
                      case map_of kvs ''clarification_question'' of
                        None \<Rightarrow> JNull | Some v \<Rightarrow> v)]"
    using r unfolding obj decision_step_obj c'
    by (clarsimp split: sum.splits prod.splits)
  show ?thesis
    unfolding d b using status_texts_differ by simp
qed

lemma mock_status:
  assumes "mock_analyze_issue f text = Inr d"
  shows "(\<exists>c. map_of d ''estimated_cost'' = Some (JInt c))
         \<and> (\<forall>c. map_of d ''estimated_cost'' = Some (JInt c) \<longrightarrow>
               (map_of d ''status'' = Some (JStr awaiting_human_approval)) = (c > 1000)
               \<and> (map_of d ''status'' = Some (JStr auto_assigned)) = (c \<le> 1000))"
  using assms status_texts_differ unfolding mock_analyze_issue_def Let_def
  by (clarsimp split: if_splits sum.splits)

lemma decision_step_cost:
  assumes "decision_step f ai_result = (lg, Inr d)"
  shows "\<exists>c. dict_get ai_result ''estimated_cost'' (JInt 500) = Inr c"
proof (cases ai_result)
  case (JObj kvs)
  show ?thesis unfolding JObj dict_get_obj by simp
qed (use assms in \<open>simp_all add: decision_step_not_obj\<close>)

lemma processing_error_status:
  "map_of processing_error_decision ''status'' = Some (JStr processing_error)"
  "map_of processing_error_decision ''estimated_cost'' = Some (JInt 500)"
  by (simp_all add: processing_error_decision_def)

lemma ai_analyze_issue_cases:
  assumes "ai_analyze_issue sv text = (lg, d)"
  shows "d = processing_error_decision
         \<or> (\<exists>lg1 ai_result lg2. call_gemini sv text = (lg1, Inr ai_result)
               \<and> decision_step (vendors_json sv) ai_result = (lg2, Inr d))"
  using assms unfolding ai_analyze_issue_def
  by (clarsimp split: prod.splits sum.splits)

lemma ai_analyze_issue_status:
  assumes "ai_analyze_issue sv text = (lg, d)"
  shows "(map_of d ''status'' = Some (JStr awaiting_human_approval)) =
           (\<exists>c. map_of d ''estimated_cost'' = Some c \<and> py_gt c 1000 = Inr True)"
  using ai_analyze_issue_cases [OF assms]
proof
  assume "d = processing_error_decision"
  then show ?thesis
    using status_texts_differ by (simp add: processing_error_status)
next
  assume "\<exists>lg1 ai_result lg2. call_gemini sv text = (lg1, Inr ai_result)
               \<and> decision_step (vendors_json sv) ai_result = (lg2, Inr d)"
  then obtain ai_result lg2 where r: "decision_step (vendors_json sv) ai_result = (lg2, Inr d)"
    by blast
  from decision_step_cost [OF r] obtain c
    where c: "dict_get ai_result ''estimated_cost'' (JInt 500) = Inr c" by blast
  from decision_step_returns [OF r c] show ?thesis by simp
qed

section \<open>The keyword classifier\<close>

lemma any_keyword_sublist:
  "any_keyword kws t = (\<exists>k\<in>set kws. sublist k t)"
  by (simp add: any_keyword_def list_ex_iff py_in_sublist)

lemma py_gt_not_number: "\<not> is_number c \<Longrightarrow> py_gt c n = Inl TypeError"
  by (cases c) simp_all

section \<open>Vendor resolution, the invariant, the vendor field\<close>

lemma vendor_category_of_table:
  "vendor_category_of l =
     (if l = ''plumbing'' then ''Plumbing''
      else if l = ''ac'' then ''AC''
      else if l = ''electrical'' then ''General''
      else if l = ''general'' then ''General''
      else if l = ''general maintenance'' then ''General''
      else ''General'')"
  by (simp add: vendor_category_of_def category_map_def)

lemma mock_vendor_field:
  assumes dir: "directory_of f = Some dir"
  shows "\<exists>d. mock_analyze_issue f text = Inr d
           \<and> map_of d ''vendor'' =
               Some (if any_keyword plumbing_keywords (py_lower text)
                       then first_match ''Plumbing'' dir
                     else if any_keyword ac_keywords (py_lower text)
                       then first_match ''AC'' dir
                     else if any_keyword electrical_keywords (py_lower text)
                       then JStr ''Auto-assigned vendor''
                     else first_match ''General'' dir)"
  unfolding mock_analyze_issue_def Let_def mock_vendor_directory [OF dir]
  by simp

lemma mock_raw_invariant:
  assumes "mock_analyze_issue f text = Inr d"
  shows "raw_invariant (JObj d)"
  using assms unfolding mock_analyze_issue_def Let_def
  by (clarsimp simp: raw_invariant_def question_absent_def split: if_splits sum.splits)

lemma fallback_raw_invariant: "raw_invariant fallback_classification"
  by (simp add: raw_invariant_def fallback_classification_def question_nonempty_def)

lemma mock_vendor_present:
  assumes "mock_analyze_issue f text = Inr d"
  shows "\<exists>v. map_of d ''vendor'' = Some v"
  using assms unfolding mock_analyze_issue_def Let_def
  by (clarsimp split: if_splits sum.splits)

lemma decision_step_vendor_present:
  assumes "decision_step f ai_result = (lg, Inr d)"
  shows "\<exists>v. map_of d ''vendor'' = Some v"
proof (cases ai_result)
  case (JObj kvs)
  show ?thesis
    using assms unfolding JObj decision_step_obj
    by (clarsimp split: sum.splits prod.splits)
qed (use assms in \<open>simp_all add: decision_step_not_obj\<close>)

lemma ai_vendor_present:
  assumes "ai_analyze_issue sv text = (lg, d)"
  shows "\<exists>v. map_of d ''vendor'' = Some v"
  using ai_analyze_issue_cases [OF assms]
  by (auto simp: processing_error_decision_def dest: decision_step_vendor_present)

lemma format_response_vendor_line:
  assumes "map_of d ''issue_type'' = Some it" "map_of d ''priority'' = Some p"
    and "map_of d ''estimated_cost'' = Some c" "map_of d ''status'' = Some (JStr st)"
    and "map_of d ''vendor'' = Some v"
  shows "format_response str_of tools d =
     Inr (tools @ '' **Issue Received**'' @ [CHR 0x0A, CHR 0x0A]
          @ ''**Type:** '' @ str_of it @ [CHR 0x0A]
          @ ''**Priority:** '' @ str_of p @ [CHR 0x0A]
          @ ''**Estimated Cost:** AED '' @ str_of c @ [CHR 0x0A, CHR 0x0A]
          @ ''**Status:** '' @ str_of (JStr st) @ [CHR 0x0A]
          @ (if truthy v \<and> py_in ''auto-assigned'' (py_lower st)
             then ''**Vendor:** '' @ str_of v @ [CHR 0x0A] else []))"
  using assms by (simp add: format_response_def Let_def)

lemma status_texts_auto_assigned:
  "py_in ''auto-assigned'' (py_lower auto_assigned)"
  "\<not> py_in ''auto-assigned'' (py_lower awaiting_human_approval)"
  "\<not> py_in ''auto-assigned'' (py_lower processing_error)"
  by code_simp+

section \<open>Code fences\<close>

lemma json_ws_isspace: "json_ws c \<Longrightarrow> py_isspace c"
  by (auto simp: json_ws_def py_isspace_def)

lemma value_first_not_space: "value_first c \<Longrightarrow> \<not> py_isspace c"
  by (auto simp: value_first_def py_isspace_def)

lemma value_last_not_space: "value_last c \<Longrightarrow> \<not> py_isspace c"
  by (auto simp: value_last_def py_isspace_def)

lemma value_first_not_fence: "value_first c \<Longrightarrow> c \<noteq> CHR 0x60 \<and> c \<noteq> CHR ''j''"
  by (auto simp: value_first_def)

lemma json_ws_not_fence: "json_ws c \<Longrightarrow> c \<noteq> CHR 0x60 \<and> c \<noteq> CHR ''j''"
  by (auto simp: json_ws_def)

lemma trim_padded:
  assumes "\<forall>x\<in>set w1. P x" "\<forall>x\<in>set w2. P x" "b \<noteq> []" "\<not> P (hd b)" "\<not> P (last b)"
  shows "rev (dropWhile P (rev (dropWhile P (w1 @ b @ w2)))) = b"
proof -
  have "dropWhile P (w1 @ b @ w2) = dropWhile P (b @ w2)"
    using assms(1) by (simp add: dropWhile_append2)
  also have "\<dots> = b @ w2"
    using assms(3,4) by (cases b) simp_all
  finally have front: "dropWhile P (w1 @ b @ w2) = b @ w2" .
  have "dropWhile P (rev (b @ w2)) = dropWhile P (rev b)"
    using assms(2) dropWhile_append2 [of "rev w2" P "rev b"] by simp
  also have "\<dots> = rev b"
    using assms(3,5) by (cases "rev b") (auto simp: hd_rev)
  finally show ?thesis by (simp add: front)
qed

lemma trim_decompose:
  "\<exists>w1 w2. s = w1 @ rev (dropWhile P (rev (dropWhile P s))) @ w2
      \<and> (\<forall>x\<in>set w1. P x) \<and> (\<forall>x\<in>set w2. P x)"
proof -
  let ?a = "dropWhile P s"
  let ?b = "rev (dropWhile P (rev ?a))"
  have s: "s = takeWhile P s @ ?a" by simp
  have "rev (takeWhile P (rev ?a) @ dropWhile P (rev ?a)) = ?a"
    by (simp only: takeWhile_dropWhile_id rev_rev_ident)
  then have a: "?a = ?b @ rev (takeWhile P (rev ?a))"
    by (simp only: rev_append)
  have "s = takeWhile P s @ ?b @ rev (takeWhile P (rev ?a))"
    using s a by metis
  moreover have "\<forall>x\<in>set (takeWhile P s). P x" by (auto dest: set_takeWhileD)
  moreover have "\<forall>x\<in>set (rev (takeWhile P (rev ?a))). P x" by (auto dest: set_takeWhileD)
  ultimately show ?thesis by blast
qed

lemma trim_ends:
  assumes "rev (dropWhile P (rev (dropWhile P s))) \<noteq> []"
  shows "\<not> P (hd (rev (dropWhile P (rev (dropWhile P s)))))
       \<and> \<not> P (last (rev (dropWhile P (rev (dropWhile P s)))))"
proof -
  let ?a = "dropWhile P s"
  let ?d = "dropWhile P (rev ?a)"
  have d: "?d \<noteq> []" using assms by (simp only: rev_is_Nil_conv not_False_eq_True)
  have a: "?a \<noteq> []"
  proof
    assume e: "?a = []"
    have "?d = []" unfolding e by simp
    with d show False by (simp only:)
  qed
  have l: "\<not> P (hd ?d)" using d by (rule hd_dropWhile)
  have "last ?d = last (rev ?a)"
    using d by (metis takeWhile_dropWhile_id last_appendR)
  then have "last ?d = hd ?a" using a by (simp add: last_rev)
  moreover have "\<not> P (hd ?a)" using a by (rule hd_dropWhile)
  ultimately show ?thesis using l by (simp add: hd_rev last_rev)
qed

lemma json_trim_shape:
  assumes "json_trim s \<noteq> []"
  obtains u1 u2 where "s = u1 @ json_trim s @ u2" "\<forall>x\<in>set u1. json_ws x"
    "\<forall>x\<in>set u2. json_ws x" "\<not> json_ws (hd (json_trim s))" "\<not> json_ws (last (json_trim s))"
  using trim_decompose [of s json_ws] trim_ends [of json_ws s] assms
  unfolding json_trim_def by blast

lemma json_trim_padded:
  assumes w1: "\<forall>x\<in>set w1. json_ws x" and w2: "\<forall>x\<in>set w2. json_ws x"
    and b: "json_trim s \<noteq> []"
  shows "json_trim (w1 @ s @ w2) = json_trim s"
proof -
  from b obtain u1 u2 where s: "s = u1 @ json_trim s @ u2"
    and u1: "\<forall>x\<in>set u1. json_ws x" and u2: "\<forall>x\<in>set u2. json_ws x"
    and h: "\<not> json_ws (hd (json_trim s))" and l: "\<not> json_ws (last (json_trim s))"
    by (rule json_trim_shape)
  have eq: "w1 @ s @ w2 = (w1 @ u1) @ json_trim s @ (u2 @ w2)"
    using s by (metis append.assoc)
  have "json_trim ((w1 @ u1) @ json_trim s @ (u2 @ w2)) = json_trim s"
    unfolding json_trim_def [of "(w1 @ u1) @ json_trim s @ (u2 @ w2)"]
    using w1 w2 u1 u2 b h l by (intro trim_padded) auto
  then show ?thesis by (simp only: eq)
qed

lemma py_strip_json_trim:
  assumes b: "json_trim s \<noteq> []"
    and h: "\<not> py_isspace (hd (json_trim s))" and l: "\<not> py_isspace (last (json_trim s))"
  shows "py_strip s = json_trim s"
proof -
  from b obtain u1 u2 where s: "s = u1 @ json_trim s @ u2"
    and u1: "\<forall>x\<in>set u1. json_ws x" and u2: "\<forall>x\<in>set u2. json_ws x"
    by (rule json_trim_shape)
  have "py_strip (u1 @ json_trim s @ u2) = json_trim s"
    unfolding py_strip_def
    using u1 u2 b h l by (intro trim_padded) (auto dest: json_ws_isspace)
  then show ?thesis using s by metis
qed

lemma accepted_text:
  assumes dec: "json_decoder loads" and ok: "loads s = Some v"
  shows "s \<noteq> []" and "hd s \<noteq> CHR 0x60" and "hd s \<noteq> CHR ''j''"
    and "py_strip s = json_trim s" and "loads (json_trim s) = Some v"
    and "json_trim s \<noteq> []"
proof -
  from dec ok have same: "loads (json_trim s) = Some v"
    and b: "json_trim s \<noteq> []" and f: "value_first (hd (json_trim s))"
    and l: "value_last (last (json_trim s))"
    unfolding json_decoder_def by (metis option.distinct(1))+
  show "loads (json_trim s) = Some v" by (rule same)
  show "json_trim s \<noteq> []" by (rule b)
  show "py_strip s = json_trim s"
    using b f l by (intro py_strip_json_trim) (auto dest: value_first_not_space value_last_not_space)
  from b obtain u1 u2 where s: "s = u1 @ json_trim s @ u2"
    and u1: "\<forall>x\<in>set u1. json_ws x"
    by (rule json_trim_shape)
  show "s \<noteq> []" using s b by auto
  have "json_ws (hd s) \<or> value_first (hd s)"
  proof (cases u1)
    case Nil
    then have "hd s = hd (json_trim s)" using s b by (metis append_Nil hd_append2)
    then show ?thesis using f by simp
  next
    case (Cons c cs)
    then have "hd s = c" using s by (metis append_Cons list.sel(1))
    then show ?thesis using u1 Cons by simp
  qed
  then show "hd s \<noteq> CHR 0x60" and "hd s \<noteq> CHR ''j''"
    using json_ws_not_fence value_first_not_fence by blast+
qed

lemma py_strip_padded:
  assumes "\<forall>x\<in>set pre. py_isspace x" "\<forall>x\<in>set post. py_isspace x"
    and "b \<noteq> []" "\<not> py_isspace (hd b)" "\<not> py_isspace (last b)"
  shows "py_strip (pre @ b @ post) = b"
  unfolding py_strip_def using assms by (rule trim_padded)

lemma fence_not_space: "\<not> py_isspace (CHR 0x60)"
  by (simp add: py_isspace_def)

lemma clean_tagged:
  assumes pre: "\<forall>x\<in>set pre. py_isspace x" and post: "\<forall>x\<in>set post. py_isspace x"
    and t: "t \<noteq> []" "hd t \<noteq> CHR 0x60"
  shows "clean_response (pre @ ''```json'' @ t @ ''```'' @ post) = py_strip t"
proof -
  have "py_strip (pre @ (''```json'' @ t @ ''```'') @ post) = ''```json'' @ t @ ''```''"
    using pre post by (rule py_strip_padded) (simp_all add: fence_not_space)
  then have t0: "py_strip (pre @ ''```json'' @ t @ ''```'' @ post) = ''```json'' @ t @ ''```''"
    by simp
  have t1: "startswith (''```json'' @ t @ ''```'') ''```json''"
    by (simp add: startswith_def)
  have t2: "\<not> startswith (t @ ''```'') ''```''"
    using t by (cases t) (simp_all add: startswith_def)
  have t3: "endswith (t @ ''```'') ''```''"
    by (simp add: endswith_def)
  show ?thesis
    unfolding clean_response_def t0 Let_def using t1 t2 t3 by simp
qed

lemma clean_untagged:
  assumes pre: "\<forall>x\<in>set pre. py_isspace x" and post: "\<forall>x\<in>set post. py_isspace x"
    and t: "t \<noteq> []" "hd t \<noteq> CHR ''j''"
  shows "clean_response (pre @ ''```'' @ t @ ''```'' @ post) = py_strip t"
proof -
  have "py_strip (pre @ (''```'' @ t @ ''```'') @ post) = ''```'' @ t @ ''```''"
    using pre post by (rule py_strip_padded) (simp_all add: fence_not_space)
  then have t0: "py_strip (pre @ ''```'' @ t @ ''```'' @ post) = ''```'' @ t @ ''```''"
    by simp
  have t1: "\<not> startswith (''```'' @ t @ ''```'') ''```json''"
    using t by (cases t) (simp_all add: startswith_def)
  have t2: "startswith (''```'' @ t @ ''```'') ''```''"
    by (simp add: startswith_def)
  have t3: "endswith (t @ ''```'') ''```''"
    by (simp add: endswith_def)
  show ?thesis
    unfolding clean_response_def t0 Let_def using t1 t2 t3 by simp
qed

lemma json_trim_idem: "json_trim (json_trim s) = json_trim s"
proof (cases "json_trim s = []")
  case True
  show ?thesis unfolding True by (simp add: json_trim_def)
next
  case False
  then obtain u1 u2 where "\<not> json_ws (hd (json_trim s))" "\<not> json_ws (last (json_trim s))"
    by (rule json_trim_shape)
  with False have "json_trim ([] @ json_trim s @ []) = json_trim s"
    unfolding json_trim_def [of "[] @ json_trim s @ []"]
    by (intro trim_padded) auto
  then show ?thesis by simp
qed

lemma literal_loads_decoder: "json_decoder literal_loads"
  unfolding json_decoder_def
proof (intro allI conjI impI)
  fix s
  show "literal_loads s = literal_loads (json_trim s)"
    by (simp add: literal_loads_def json_trim_idem)
  assume "literal_loads s \<noteq> None"
  then have b: "json_trim s = ''null'' \<or> json_trim s = ''true'' \<or> json_trim s = ''false''"
    by (auto simp: literal_loads_def Let_def split: if_splits)
  from b show "json_trim s \<noteq> []" by auto
  from b show "value_first (hd (json_trim s))" by (auto simp: value_first_def)
  from b show "value_last (last (json_trim s))" by (auto simp: value_last_def)
qed

section \<open>The claims\<close>

text \<open>
  C1. A Decision has the status awaiting human approval exactly when its estimated cost
  is above 1000, and the status is computed from the cost alone.

  The decision step of the AI module reads \<open>estimated_cost\<close> from the classification
  (500 when the key is absent). First part: whenever the step returns a Decision, the
  Decision carries that cost, its status is the approval text exactly when the cost is
  above 1000 and the auto-assigned text exactly when it is not. The classification is
  any value at all, so whatever else it holds (a status, a recommendation, a request
  for clarification) has no part in the status. Second part: the step does return
  when the cost is a number, the issue type is a text and the vendor directory is
  absent or well formed. Third part: every result of the keyword module has an integer
  cost and the status the threshold gives. Fourth part: every Decision the AI entry
  point returns, the processing-error one included, has the approval status exactly
  when its own cost is above 1000.
\<close>

theorem approval_threshold_enforced:
  "(decision_step f ai_result = (lg, Inr d)
      \<and> dict_get ai_result ''estimated_cost'' (JInt 500) = Inr c \<longrightarrow>
        map_of d ''estimated_cost'' = Some c
        \<and> (map_of d ''status'' = Some (JStr awaiting_human_approval)) = (py_gt c 1000 = Inr True)
        \<and> (map_of d ''status'' = Some (JStr auto_assigned)) = (py_gt c 1000 = Inr False))
   \<and> (dict_get raw ''estimated_cost'' (JInt 500) = Inr c' \<and> py_gt c' 1000 = Inr b
      \<and> dict_get raw ''issue_type'' (JStr ''General Maintenance'') = Inr (JStr it)
      \<and> directory_of f' = Some dir \<longrightarrow>
        (\<exists>lg' d'. decision_step f' raw = (lg', Inr d')
           \<and> map_of d' ''status'' =
                Some (JStr (if b then awaiting_human_approval else auto_assigned))))
   \<and> (mock_analyze_issue g text = Inr m \<longrightarrow>
        (\<exists>n. map_of m ''estimated_cost'' = Some (JInt n))
        \<and> (\<forall>n. map_of m ''estimated_cost'' = Some (JInt n) \<longrightarrow>
              (map_of m ''status'' = Some (JStr awaiting_human_approval)) = (n > 1000)
              \<and> (map_of m ''status'' = Some (JStr auto_assigned)) = (n \<le> 1000)))
   \<and> (ai_analyze_issue sv text' = (lg'', e) \<longrightarrow>
        (map_of e ''status'' = Some (JStr awaiting_human_approval)) =
           (\<exists>k. map_of e ''estimated_cost'' = Some k \<and> py_gt k 1000 = Inr True))"
proof (intro conjI impI)
  assume a: "decision_step f ai_result = (lg, Inr d) \<and>
    dict_get ai_result ''estimated_cost'' (JInt 500) = Inr c"
  from decision_step_returns [of f ai_result lg d c] a
  show "map_of d ''estimated_cost'' = Some c"
    and "(map_of d ''status'' = Some (JStr awaiting_human_approval)) = (py_gt c 1000 = Inr True)"
    and "(map_of d ''status'' = Some (JStr auto_assigned)) = (py_gt c 1000 = Inr False)"
    by blast+
next
  assume "dict_get raw ''estimated_cost'' (JInt 500) = Inr c' \<and> py_gt c' 1000 = Inr b
      \<and> dict_get raw ''issue_type'' (JStr ''General Maintenance'') = Inr (JStr it)
      \<and> directory_of f' = Some dir"
  then show "\<exists>lg' d'. decision_step f' raw = (lg', Inr d')
           \<and> map_of d' ''status'' =
                Some (JStr (if b then awaiting_human_approval else auto_assigned))"
    using decision_step_typed [of raw c' b it f' dir] by blast
next
  assume m: "mock_analyze_issue g text = Inr m"
  from mock_status [OF m]
  show "\<exists>n. map_of m ''estimated_cost'' = Some (JInt n)"
    and "\<forall>n. map_of m ''estimated_cost'' = Some (JInt n) \<longrightarrow>
              (map_of m ''status'' = Some (JStr awaiting_human_approval)) = (n > 1000)
              \<and> (map_of m ''status'' = Some (JStr auto_assigned)) = (n \<le> 1000)"
    by blast+
next
  assume "ai_analyze_issue sv text' = (lg'', e)"
  then show "(map_of e ''status'' = Some (JStr awaiting_human_approval)) =
           (\<exists>k. map_of e ''estimated_cost'' = Some k \<and> py_gt k 1000 = Inr True)"
    by (rule ai_analyze_issue_status)
qed

text \<open>
  The classification below asks for automatic assignment in a \<open>status\<close> key of its
  own and costs 1500: the step answers with the approval status.
\<close>

theorem approval_threshold_enforced_witness:
  "decision_step (LoadRaises FileNotFoundError)
       (JObj [(''issue_type'', JStr ''Plumbing''), (''estimated_cost'', JInt 1500),
              (''status'', JStr ''Vendor auto-assigned'')])
     = ([VendorsNotFound,
         FinalAnalysis
           [(''issue_type'', JStr ''Plumbing''), (''priority'', JStr ''MEDIUM''),
            (''estimated_cost'', JInt 1500),
            (''status'', JStr ''Waiting for human approval (cost > 1000 AED)''),
            (''vendor'', JStr ''Auto-assigned vendor''),
            (''needs_clarification'', JBool False), (''clarification_question'', JNull)]],
        Inr [(''issue_type'', JStr ''Plumbing''), (''priority'', JStr ''MEDIUM''),
             (''estimated_cost'', JInt 1500),
             (''status'', JStr ''Waiting for human approval (cost > 1000 AED)''),
             (''vendor'', JStr ''Auto-assigned vendor''),
             (''needs_clarification'', JBool False), (''clarification_question'', JNull)])
   \<and> dict_get (JObj [(''issue_type'', JStr ''Plumbing''), (''estimated_cost'', JInt 1500),
                     (''status'', JStr ''Vendor auto-assigned'')])
         ''estimated_cost'' (JInt 500) = Inr (JInt 1500)
   \<and> py_gt (JInt 1500) 1000 = Inr True
   \<and> map_of [(''issue_type'', JStr ''Plumbing''), (''priority'', JStr ''MEDIUM''),
              (''estimated_cost'', JInt 1500),
              (''status'', JStr ''Waiting for human approval (cost > 1000 AED)''),
              (''vendor'', JStr ''Auto-assigned vendor''),
              (''needs_clarification'', JBool False), (''clarification_question'', JNull)]
         ''status'' = Some (JStr awaiting_human_approval)"
  (is "decision_step ?f ?r = (?lg, Inr ?d) \<and> ?get \<and> ?gt \<and> ?status")
proof -
  have step: "decision_step ?f ?r = (?lg, Inr ?d)" by code_simp
  have get: ?get by simp
  have gt: ?gt by simp
  from approval_threshold_enforced [of ?f ?r ?lg ?d "JInt 1500"] step get gt
  have ?status by blast
  with step get gt show ?thesis by blast
qed

text \<open>
  C2, as stated, fails: the keyword module does not return for every text. Its plumbing,
  AC and default branches look a vendor up, and \<open>load_vendors\<close> catches
  \<open>FileNotFoundError\<close> alone. On a vendors file whose one entry has no category the
  lookup raises \<open>KeyError\<close>, and on a file that does not decode the load raises
  \<open>JSONDecodeError\<close>; either leaves \<open>analyze_issue\<close>.
\<close>

theorem keyword_classifier_total_counterexample:
  "mock_analyze_issue (LoadReturns (JArr [JObj [(''name'', JStr ''Pat'')]]))
      ''Door handle broken'' = Inl KeyError
   \<and> mock_analyze_issue (LoadRaises JSONDecodeError) ''Door handle broken''
      = Inl JSONDecodeError"
  by code_simp

text \<open>
  C2, amended. Let the vendors file be absent or a list of entries with a text category
  and a name. Then for every text the keyword classifier returns a result: it
  lower-cases the text and tests the four keyword sets in order by substring, the first
  set with a keyword in the text deciding issue type, priority and cost, and the default
  result when no set has one. \<open>sublist k t\<close> is the mathematical statement that \<open>k\<close>
  occurs in \<open>t\<close> as a contiguous block.
\<close>

theorem keyword_classifier_first_match:
  assumes "directory_of f = Some dir"
  shows "mock_analyze_issue f text = Inr
     (if \<exists>k \<in> {''leak'', ''water'', ''plumbing'', ''pipe'', ''drain'', ''toilet'', ''sink''}.
           sublist k (py_lower text)
      then [(''issue_type'', JStr ''Plumbing Leak''), (''priority'', JStr ''HIGH''),
            (''estimated_cost'', JInt 1500), (''status'', JStr awaiting_human_approval),
            (''vendor'', first_match ''Plumbing'' dir)]
      else if \<exists>k \<in> {''ac'', ''air'', ''cool'', ''conditioning'', ''temperature'', ''hot'',
                      ''cold''}. sublist k (py_lower text)
      then [(''issue_type'', JStr ''AC Maintenance''), (''priority'', JStr ''MEDIUM''),
            (''estimated_cost'', JInt 600), (''status'', JStr auto_assigned),
            (''vendor'', first_match ''AC'' dir)]
      else if \<exists>k \<in> {''electric'', ''power'', ''light'', ''socket'', ''outlet'', ''switch''}.
                sublist k (py_lower text)
      then [(''issue_type'', JStr ''Electrical Issue''), (''priority'', JStr ''HIGH''),
            (''estimated_cost'', JInt 1200), (''status'', JStr awaiting_human_approval),
            (''vendor'', JStr ''Auto-assigned vendor'')]
      else [(''issue_type'', JStr ''General Maintenance''), (''priority'', JStr ''LOW''),
            (''estimated_cost'', JInt 300), (''status'', JStr auto_assigned),
            (''vendor'', first_match ''General'' dir)])"
proof -
  have p: "any_keyword plumbing_keywords (py_lower text) =
      (\<exists>k \<in> {''leak'', ''water'', ''plumbing'', ''pipe'', ''drain'', ''toilet'', ''sink''}.
         sublist k (py_lower text))"
    unfolding any_keyword_sublist plumbing_keywords_def by simp
  have a: "any_keyword ac_keywords (py_lower text) =
      (\<exists>k \<in> {''ac'', ''air'', ''cool'', ''conditioning'', ''temperature'', ''hot'', ''cold''}.
         sublist k (py_lower text))"
    unfolding any_keyword_sublist ac_keywords_def by simp
  have e: "any_keyword electrical_keywords (py_lower text) =
      (\<exists>k \<in> {''electric'', ''power'', ''light'', ''socket'', ''outlet'', ''switch''}.
         sublist k (py_lower text))"
    unfolding any_keyword_sublist electrical_keywords_def by simp
  show ?thesis
    unfolding mock_analyze_issue_def Let_def p a e mock_vendor_directory [OF assms]
    by simp
qed

theorem keyword_classifier_first_match_witness:
  "directory_of (LoadReturns (JArr [JObj [(''category'', JStr ''AC''), (''name'', JStr ''CoolAir'')]]))
     = Some [(''AC'', JStr ''CoolAir'')]
   \<and> mock_analyze_issue
        (LoadReturns (JArr [JObj [(''category'', JStr ''AC''), (''name'', JStr ''CoolAir'')]]))
        ''MY AC IS BROKEN''
      = Inr [(''issue_type'', JStr ''AC Maintenance''), (''priority'', JStr ''MEDIUM''),
            (''estimated_cost'', JInt 600), (''status'', JStr ''Vendor auto-assigned''),
            (''vendor'', JStr ''CoolAir'')]"
proof -
  have d: "directory_of (LoadReturns (JArr [JObj [(''category'', JStr ''AC''), (''name'', JStr ''CoolAir'')]]))
     = Some [(''AC'', JStr ''CoolAir'')]"
    by code_simp
  have r: "mock_analyze_issue
        (LoadReturns (JArr [JObj [(''category'', JStr ''AC''), (''name'', JStr ''CoolAir'')]]))
        ''MY AC IS BROKEN''
      = Inr [(''issue_type'', JStr ''AC Maintenance''), (''priority'', JStr ''MEDIUM''),
            (''estimated_cost'', JInt 600), (''status'', JStr ''Vendor auto-assigned''),
            (''vendor'', JStr ''CoolAir'')]"
    by code_simp
  from keyword_classifier_first_match [OF d, of "''MY AC IS BROKEN''"] d r
  show ?thesis by simp
qed

text \<open>
  C3. When the remote call fails with anything but a JSON parse failure, in
  \<open>generate_content\<close> or in reading the text of its response,
  \<open>call_gemini\<close> logs the failure and raises the same exception, with no result made
  up; \<open>analyze_issue\<close> catches it and returns the fixed processing-error Decision:
  General Maintenance, MEDIUM, 500, the processing-error status, the sentinel vendor and
  no reasoning or clarification key. Its result type is a Decision: no exception leaves
  it.
\<close>

theorem transport_failure_processing_error:
  assumes key: "\<not> key_missing (GEMINI_API_KEY sv)"
    and remote: "generate_content sv (full_prompt sv text) = CallRaises e
                 \<or> generate_content sv (full_prompt sv text) = TextRaises e"
    and other: "e \<noteq> JSONDecodeError"
  shows "call_gemini sv text = ([ApiCallFailed e], Inl e)
         \<and> ai_analyze_issue sv text =
             ([ApiCallFailed e, AnalyzeError e],
              [(''issue_type'', JStr ''General Maintenance''),
               (''priority'', JStr ''MEDIUM''),
               (''estimated_cost'', JInt 500),
               (''status'', JStr processing_error),
               (''vendor'', JStr ''Auto-assigned vendor'')])
         \<and> map_of (snd (ai_analyze_issue sv text)) ''needs_clarification'' = None
         \<and> map_of (snd (ai_analyze_issue sv text)) ''clarification_question'' = None
         \<and> map_of (snd (ai_analyze_issue sv text)) ''reasoning'' = None"
proof -
  have call: "call_gemini sv text = ([ApiCallFailed e], Inl e)"
    using key remote other by (auto simp: call_gemini_def)
  have whole: "ai_analyze_issue sv text =
      ([ApiCallFailed e, AnalyzeError e], processing_error_decision)"
    by (simp add: ai_analyze_issue_def call)
  show ?thesis
    unfolding whole call by (simp add: processing_error_decision_def)
qed

theorem transport_failure_processing_error_witness:
  "\<not> key_missing (Some ''k'')
   \<and> OtherError ''ServiceUnavailable'' \<noteq> JSONDecodeError
   \<and> call_gemini
        \<lparr>GEMINI_API_KEY = Some ''k'', SYSTEM_PROMPT = ''You are BobTheBot'',
         generate_content = (\<lambda>p. CallRaises (OtherError ''ServiceUnavailable'')),
         json_loads = (\<lambda>s. None), vendors_json = LoadRaises FileNotFoundError\<rparr>
        ''Water leaking''
      = ([ApiCallFailed (OtherError ''ServiceUnavailable'')],
         Inl (OtherError ''ServiceUnavailable''))
   \<and> snd (ai_analyze_issue
        \<lparr>GEMINI_API_KEY = Some ''k'', SYSTEM_PROMPT = ''You are BobTheBot'',
         generate_content = (\<lambda>p. CallRaises (OtherError ''ServiceUnavailable'')),
         json_loads = (\<lambda>s. None), vendors_json = LoadRaises FileNotFoundError\<rparr>
        ''Water leaking'')
      = [(''issue_type'', JStr ''General Maintenance''),
         (''priority'', JStr ''MEDIUM''),
         (''estimated_cost'', JInt 500),
         (''status'', JStr ''Processing error - please try again or contact support''),
         (''vendor'', JStr ''Auto-assigned vendor'')]"
  (is "?k \<and> ?o \<and> call_gemini ?sv ?t = ?c \<and> ?w")
proof -
  have k: "\<not> key_missing (GEMINI_API_KEY ?sv)" by (simp add: key_missing_def)
  have r: "generate_content ?sv (full_prompt ?sv ?t) = CallRaises (OtherError ''ServiceUnavailable'')
           \<or> generate_content ?sv (full_prompt ?sv ?t)
               = TextRaises (OtherError ''ServiceUnavailable'')"
    by simp
  have o: ?o by simp
  from transport_failure_processing_error [OF k r o] k o
  show ?thesis by (simp add: processing_error_def)
qed

text \<open>
  C4. When the decoder rejects the cleaned reply, \<open>call_gemini\<close> raises nothing: it
  logs the parse failure and then the reply as it was received, and returns the fixed
  fallback classification, General Maintenance, MEDIUM, 500, clarification needed, with
  the generic question.
\<close>

theorem malformed_reply_fallback:
  assumes key: "\<not> key_missing (GEMINI_API_KEY sv)"
    and remote: "generate_content sv (full_prompt sv text) = Reply r"
    and bad: "json_loads sv (clean_response r) = None"
  shows "call_gemini sv text =
           ([ParseFailed, RawResponse r],
            Inr (JObj [(''issue_type'', JStr ''General Maintenance''),
                       (''priority'', JStr ''MEDIUM''),
                       (''estimated_cost'', JInt 500),
                       (''reasoning'',
                          JStr ''AI response parsing failed, using default classification''),
                       (''needs_clarification'', JBool True),
                       (''clarification_question'',
                          JStr ''Could you please provide more details about the issue?'')]))"
  using key remote bad by (simp add: call_gemini_def fallback_classification_def)

theorem malformed_reply_fallback_witness:
  "call_gemini
        \<lparr>GEMINI_API_KEY = Some ''k'', SYSTEM_PROMPT = ''You are BobTheBot'',
         generate_content = (\<lambda>p. Reply ''I cannot help with that.''),
         json_loads = (\<lambda>s. None), vendors_json = LoadRaises FileNotFoundError\<rparr>
        ''Something is broken''
      = ([ParseFailed, RawResponse ''I cannot help with that.''],
         Inr (JObj [(''issue_type'', JStr ''General Maintenance''),
                       (''priority'', JStr ''MEDIUM''),
                       (''estimated_cost'', JInt 500),
                       (''reasoning'',
                          JStr ''AI response parsing failed, using default classification''),
                       (''needs_clarification'', JBool True),
                       (''clarification_question'',
                          JStr ''Could you please provide more details about the issue?'')]))"
  (is "call_gemini ?sv ?t = ?c")
proof -
  have k: "\<not> key_missing (GEMINI_API_KEY ?sv)" by (simp add: key_missing_def)
  have r: "generate_content ?sv (full_prompt ?sv ?t) = Reply ''I cannot help with that.''"
    by simp
  have b: "json_loads ?sv (clean_response ''I cannot help with that.'') = None" by simp
  from malformed_reply_fallback [OF k r b] show ?thesis .
qed

text \<open>
  C5, as stated, fails on the keyword module. Its directory below has one vendor, Bob, of
  category General. The table of the claim sends the issue type of the Decision,
  \<open>Electrical Issue\<close>, to General, and the first General vendor is Bob; the Decision
  carries the sentinel, because the electrical branch of the keyword module writes the
  sentinel without reading the directory.
\<close>

theorem vendor_resolution_counterexample:
  "mock_analyze_issue
      (LoadReturns (JArr [JObj [(''category'', JStr ''General''), (''name'', JStr ''Bob'')]]))
      ''Power outlet not working''
     = Inr [(''issue_type'', JStr ''Electrical Issue''), (''priority'', JStr ''HIGH''),
            (''estimated_cost'', JInt 1200),
            (''status'', JStr ''Waiting for human approval (cost > 1000 AED)''),
            (''vendor'', JStr ''Auto-assigned vendor'')]
   \<and> directory_of
        (LoadReturns (JArr [JObj [(''category'', JStr ''General''), (''name'', JStr ''Bob'')]]))
     = Some [(''General'', JStr ''Bob'')]
   \<and> vendor_category_of (py_lower ''Electrical Issue'') = ''General''
   \<and> first_match ''General'' [(''General'', JStr ''Bob'')] = JStr ''Bob''
   \<and> JStr ''Auto-assigned vendor'' \<noteq> JStr ''Bob''"
  by code_simp

text \<open>
  C5, amended. In the AI module, over a directory that is absent or well formed, vendor
  resolution lower-cases the issue type, sends plumbing to Plumbing, ac to AC, and
  electrical, general, general maintenance and every other text to General, and returns
  the name of the first entry whose category is that one, letter case apart, or the
  sentinel; an Electrical issue gets the first General vendor. The keyword module has
  no table: its plumbing, AC and default results carry the first match of the literal
  categories Plumbing, AC and General, and its electrical result carries the sentinel.
\<close>

theorem vendor_resolution_by_module:
  assumes dir: "directory_of f = Some dir"
  shows "snd (ai_get_vendor_by_category f (JStr issue_type)) =
           Inr (first_match
                  (if py_lower issue_type = ''plumbing'' then ''Plumbing''
                   else if py_lower issue_type = ''ac'' then ''AC''
                   else if py_lower issue_type = ''electrical'' then ''General''
                   else if py_lower issue_type = ''general'' then ''General''
                   else if py_lower issue_type = ''general maintenance'' then ''General''
                   else ''General'')
                  dir)
         \<and> first_match category dir =
             (case find (\<lambda>(c, n). py_lower c = py_lower category) dir of
                None \<Rightarrow> JStr ''Auto-assigned vendor''
              | Some (c, n) \<Rightarrow> n)
         \<and> snd (ai_get_vendor_by_category f (JStr ''Electrical'')) =
             Inr (first_match ''General'' dir)
         \<and> (\<exists>d. mock_analyze_issue f text = Inr d
               \<and> map_of d ''vendor'' =
                   Some (if any_keyword plumbing_keywords (py_lower text)
                           then first_match ''Plumbing'' dir
                         else if any_keyword ac_keywords (py_lower text)
                           then first_match ''AC'' dir
                         else if any_keyword electrical_keywords (py_lower text)
                           then JStr ''Auto-assigned vendor''
                         else first_match ''General'' dir))"
proof -
  have ai: "snd (ai_get_vendor_by_category f (JStr it)) =
      Inr (first_match
             (if py_lower it = ''plumbing'' then ''Plumbing''
              else if py_lower it = ''ac'' then ''AC''
              else if py_lower it = ''electrical'' then ''General''
              else if py_lower it = ''general'' then ''General''
              else if py_lower it = ''general maintenance'' then ''General''
              else ''General'')
             dir)" for it
    unfolding ai_vendor_directory [OF dir] vendor_category_of_table ..
  have electrical: "py_lower ''Electrical'' = ''electrical''" by code_simp
  have el: "snd (ai_get_vendor_by_category f (JStr ''Electrical'')) =
      Inr (first_match ''General'' dir)"
    unfolding ai [of "''Electrical''"] electrical by simp
  show ?thesis
    using ai [of issue_type] el mock_vendor_field [OF dir, of "text"]
    by (simp add: first_match_def)
qed

theorem vendor_resolution_by_module_witness:
  "directory_of
        (LoadReturns (JArr [JObj [(''category'', JStr ''plumbing''), (''name'', JStr ''Pat'')],
                            JObj [(''category'', JStr ''General''), (''name'', JStr ''Bob'')]]))
     = Some [(''plumbing'', JStr ''Pat''), (''General'', JStr ''Bob'')]
   \<and> snd (ai_get_vendor_by_category
        (LoadReturns (JArr [JObj [(''category'', JStr ''plumbing''), (''name'', JStr ''Pat'')],
                            JObj [(''category'', JStr ''General''), (''name'', JStr ''Bob'')]]))
        (JStr ''PLUMBING'')) = Inr (JStr ''Pat'')
   \<and> snd (ai_get_vendor_by_category
        (LoadReturns (JArr [JObj [(''category'', JStr ''plumbing''), (''name'', JStr ''Pat'')],
                            JObj [(''category'', JStr ''General''), (''name'', JStr ''Bob'')]]))
        (JStr ''Electrical'')) = Inr (JStr ''Bob'')"
  (is "directory_of ?f = Some ?dir \<and> ?p \<and> ?e")
proof -
  have d: "directory_of ?f = Some ?dir" by code_simp
  have l: "py_lower ''PLUMBING'' = ''plumbing''" by code_simp
  have m: "first_match ''Plumbing'' ?dir = JStr ''Pat''" by code_simp
  have g: "first_match ''General'' ?dir = JStr ''Bob''" by code_simp
  from vendor_resolution_by_module [OF d, of "''PLUMBING''"] d l m g
  show ?thesis by simp
qed

text \<open>
  C6. An absent vendors file is the empty directory in both modules, and vendor
  resolution over an absent file or over an empty directory returns the sentinel, for
  every category and every issue type, without raising.
\<close>

theorem missing_or_empty_vendors_sentinel:
  "mock_load_vendors (LoadRaises FileNotFoundError) = Inr (JArr [])
   \<and> ai_load_vendors (LoadRaises FileNotFoundError) = ([VendorsNotFound], Inr (JArr []))
   \<and> mock_get_vendor_by_category (LoadRaises FileNotFoundError) category
        = Inr (JStr ''Auto-assigned vendor'')
   \<and> mock_get_vendor_by_category (LoadReturns (JArr [])) category
        = Inr (JStr ''Auto-assigned vendor'')
   \<and> ai_get_vendor_by_category (LoadRaises FileNotFoundError) (JStr issue_type)
        = ([VendorsNotFound], Inr (JStr ''Auto-assigned vendor''))
   \<and> ai_get_vendor_by_category (LoadReturns (JArr [])) (JStr issue_type)
        = ([], Inr (JStr ''Auto-assigned vendor''))"
  by (simp add: mock_load_vendors_def ai_load_vendors_def mock_get_vendor_by_category_def
      ai_get_vendor_by_category_def)

theorem missing_or_empty_vendors_sentinel_witness:
  "mock_get_vendor_by_category (LoadRaises FileNotFoundError) ''Plumbing''
        = Inr (JStr ''Auto-assigned vendor'')
   \<and> ai_get_vendor_by_category (LoadReturns (JArr [])) (JStr ''AC'')
        = ([], Inr (JStr ''Auto-assigned vendor''))"
  using missing_or_empty_vendors_sentinel [of "''Plumbing''" "''AC''"] by simp

text \<open>
  C7, as stated, fails on the AI classifier: the object the decoder returns is handed
  back as it is. Here the model replies with a cost of -5 and asks for clarification
  with no question.
\<close>

theorem raw_invariant_counterexample:
  "call_gemini
      \<lparr>GEMINI_API_KEY = Some ''k'', SYSTEM_PROMPT = ''You are BobTheBot'',
       generate_content = (\<lambda>p. Reply ''{\"estimated_cost\": -5, \"needs_clarification\": true}''),
       json_loads =
         (\<lambda>s. if s = ''{\"estimated_cost\": -5, \"needs_clarification\": true}''
              then Some (JObj [(''estimated_cost'', JInt (- 5)),
                               (''needs_clarification'', JBool True)])
              else None),
       vendors_json = LoadRaises FileNotFoundError\<rparr>
      ''Something is broken''
     = ([GeminiAnalysis (JObj [(''estimated_cost'', JInt (- 5)),
                               (''needs_clarification'', JBool True)])],
        Inr (JObj [(''estimated_cost'', JInt (- 5)), (''needs_clarification'', JBool True)]))
   \<and> \<not> raw_invariant (JObj [(''estimated_cost'', JInt (- 5)),
                              (''needs_clarification'', JBool True)])
   \<and> \<not> nonnegative (JInt (- 5))
   \<and> \<not> question_nonempty [(''estimated_cost'', JInt (- 5)),
                             (''needs_clarification'', JBool True)]"
  by code_simp

text \<open>
  C7, amended. The classifications the code builds itself satisfy the invariant: every
  result of the keyword classifier and the fallback of the AI classifier. A reply that
  decodes is returned as decoded, with no check; a reply that does not decode gives the
  fallback.
\<close>

theorem raw_invariant_of_built_classifications:
  "(mock_analyze_issue f text = Inr d \<longrightarrow> raw_invariant (JObj d))
   \<and> raw_invariant fallback_classification
   \<and> (\<not> key_missing (GEMINI_API_KEY sv)
        \<and> generate_content sv (full_prompt sv msg) = Reply r
        \<and> json_loads sv (clean_response r) = Some v \<longrightarrow>
          snd (call_gemini sv msg) = Inr v)
   \<and> (\<not> key_missing (GEMINI_API_KEY sv)
        \<and> generate_content sv (full_prompt sv msg) = Reply r
        \<and> json_loads sv (clean_response r) = None \<longrightarrow>
          snd (call_gemini sv msg) = Inr fallback_classification)"
  using mock_raw_invariant [of f "text" d] fallback_raw_invariant
  by (simp add: call_gemini_def)

theorem raw_invariant_of_built_classifications_witness:
  "mock_analyze_issue (LoadRaises FileNotFoundError) ''Door handle broken''
     = Inr [(''issue_type'', JStr ''General Maintenance''), (''priority'', JStr ''LOW''),
            (''estimated_cost'', JInt 300), (''status'', JStr ''Vendor auto-assigned''),
            (''vendor'', JStr ''Auto-assigned vendor'')]
   \<and> raw_invariant
        (JObj [(''issue_type'', JStr ''General Maintenance''), (''priority'', JStr ''LOW''),
               (''estimated_cost'', JInt 300), (''status'', JStr ''Vendor auto-assigned''),
               (''vendor'', JStr ''Auto-assigned vendor'')])"
  (is "mock_analyze_issue ?f ?t = Inr ?d \<and> ?inv")
proof -
  have m: "mock_analyze_issue ?f ?t = Inr ?d" by code_simp
  from raw_invariant_of_built_classifications [of ?f ?t ?d] m show ?thesis by blast
qed

text \<open>
  C8. Let the decoder accept \<open>s\<close> with value \<open>v\<close>. Put \<open>s\<close> between an opening
  fence, with or without the \<open>json\<close> tag, and a closing fence; white space may stand
  before and after the fences, and JSON white space (a line feed, say) between the
  fences and \<open>s\<close>. The cleaning step of \<open>call_gemini\<close> turns the wrapped text into
  one the decoder accepts with the same value \<open>v\<close>.
\<close>

theorem fenced_reply_parses_identically:
  assumes dec: "json_decoder loads" and ok: "loads s = Some v"
    and pre: "\<forall>x\<in>set pre. py_isspace x" and post: "\<forall>x\<in>set post. py_isspace x"
    and w1: "\<forall>x\<in>set w1. json_ws x" and w2: "\<forall>x\<in>set w2. json_ws x"
  shows "loads (clean_response (pre @ ''```json'' @ w1 @ s @ w2 @ ''```'' @ post)) = Some v
       \<and> loads (clean_response (pre @ ''```'' @ w1 @ s @ w2 @ ''```'' @ post)) = Some v"
proof -
  let ?t = "w1 @ s @ w2"
  have "json_trim s \<noteq> []" using dec ok by (rule accepted_text)
  then have "json_trim ?t = json_trim s" using w1 w2 by (intro json_trim_padded)
  moreover have "loads (json_trim s) = Some v" using dec ok by (rule accepted_text)
  moreover have "loads ?t = loads (json_trim ?t)" using dec by (simp add: json_decoder_def)
  ultimately have t: "loads ?t = Some v" by simp
  have strip: "py_strip ?t = json_trim ?t" using dec t by (rule accepted_text)
  have trimmed: "loads (json_trim ?t) = Some v" using dec t by (rule accepted_text)
  have ne: "?t \<noteq> []" using dec t by (rule accepted_text)
  have h1: "hd ?t \<noteq> CHR 0x60" using dec t by (rule accepted_text)
  have h2: "hd ?t \<noteq> CHR ''j''" using dec t by (rule accepted_text)
  have "clean_response (pre @ ''```json'' @ ?t @ ''```'' @ post) = py_strip ?t"
    using pre post ne h1 by (rule clean_tagged)
  moreover have "clean_response (pre @ ''```'' @ ?t @ ''```'' @ post) = py_strip ?t"
    using pre post ne h2 by (rule clean_untagged)
  ultimately show ?thesis using strip trimmed by simp
qed

theorem fenced_reply_parses_identically_witness:
  "json_decoder literal_loads
   \<and> literal_loads '' true'' = Some (JBool True)
   \<and> literal_loads (clean_response (''```json'' @ [CHR 0x0A] @ '' true'' @ [CHR 0x0A] @ ''```''
        @ [CHR 0x0A])) = Some (JBool True)
   \<and> literal_loads (clean_response (''```'' @ [CHR 0x0A] @ '' true'' @ [CHR 0x0A] @ ''```''
        @ [CHR 0x0A])) = Some (JBool True)"
proof -
  have ok: "literal_loads '' true'' = Some (JBool True)" by code_simp
  have sp: "\<forall>x\<in>set [CHR 0x0A]. py_isspace x" by (simp add: py_isspace_def)
  have ws: "\<forall>x\<in>set [CHR 0x0A]. json_ws x" by (simp add: json_ws_def)
  have none: "\<forall>x\<in>set []. py_isspace x" by simp
  from fenced_reply_parses_identically [OF literal_loads_decoder ok none sp ws ws]
    literal_loads_decoder ok
  show ?thesis by simp
qed

text \<open>
  C9, as stated, fails: a Decision awaiting approval carries the name of a vendor, and
  the processing-error Decision carries the sentinel.
\<close>

theorem vendor_only_when_assigned_counterexample:
  "mock_analyze_issue
      (LoadReturns (JArr [JObj [(''category'', JStr ''Plumbing''), (''name'', JStr ''Pat'')]]))
      ''Water leaking from the ceiling in bathroom''
     = Inr [(''issue_type'', JStr ''Plumbing Leak''), (''priority'', JStr ''HIGH''),
            (''estimated_cost'', JInt 1500),
            (''status'', JStr ''Waiting for human approval (cost > 1000 AED)''),
            (''vendor'', JStr ''Pat'')]
   \<and> map_of [(''issue_type'', JStr ''Plumbing Leak''), (''priority'', JStr ''HIGH''),
              (''estimated_cost'', JInt 1500),
              (''status'', JStr ''Waiting for human approval (cost > 1000 AED)''),
              (''vendor'', JStr ''Pat'')] ''status'' = Some (JStr awaiting_human_approval)
   \<and> map_of [(''issue_type'', JStr ''Plumbing Leak''), (''priority'', JStr ''HIGH''),
              (''estimated_cost'', JInt 1500),
              (''status'', JStr ''Waiting for human approval (cost > 1000 AED)''),
              (''vendor'', JStr ''Pat'')] ''vendor'' = Some (JStr ''Pat'')
   \<and> map_of processing_error_decision ''status'' = Some (JStr processing_error)
   \<and> map_of processing_error_decision ''vendor'' = Some (JStr ''Auto-assigned vendor'')"
  by code_simp

text \<open>
  C9, amended. Every Decision of either module has a vendor key, whatever its status.
  It is \<open>format_response\<close> that leaves the vendor out: on a Decision with the five
  keys and a text status it appends the vendor line exactly when the vendor is truthy
  and the lower-cased status contains \<open>auto-assigned\<close>, which holds for the
  auto-assigned status text and fails for the approval and processing-error texts.
\<close>

theorem vendor_present_shown_when_assigned:
  "(mock_analyze_issue f text = Inr d \<longrightarrow> (\<exists>v. map_of d ''vendor'' = Some v))
   \<and> (ai_analyze_issue sv msg = (lg, e) \<longrightarrow> (\<exists>v. map_of e ''vendor'' = Some v))
   \<and> (map_of a ''issue_type'' = Some it \<and> map_of a ''priority'' = Some p
        \<and> map_of a ''estimated_cost'' = Some c \<and> map_of a ''status'' = Some (JStr st)
        \<and> map_of a ''vendor'' = Some w \<longrightarrow>
          format_response str_of tools a =
            Inr (tools @ '' **Issue Received**'' @ [CHR 0x0A, CHR 0x0A]
                 @ ''**Type:** '' @ str_of it @ [CHR 0x0A]
                 @ ''**Priority:** '' @ str_of p @ [CHR 0x0A]
                 @ ''**Estimated Cost:** AED '' @ str_of c @ [CHR 0x0A, CHR 0x0A]
                 @ ''**Status:** '' @ str_of (JStr st) @ [CHR 0x0A]
                 @ (if truthy w \<and> py_in ''auto-assigned'' (py_lower st)
                    then ''**Vendor:** '' @ str_of w @ [CHR 0x0A] else [])))
   \<and> py_in ''auto-assigned'' (py_lower auto_assigned)
   \<and> \<not> py_in ''auto-assigned'' (py_lower awaiting_human_approval)
   \<and> \<not> py_in ''auto-assigned'' (py_lower processing_error)"
  using mock_vendor_present [of f "text" d] ai_vendor_present [of sv msg lg e]
    format_response_vendor_line [of a it p c st w str_of tools] status_texts_auto_assigned
  by blast

theorem vendor_present_shown_when_assigned_witness:
  "mock_analyze_issue
      (LoadReturns (JArr [JObj [(''category'', JStr ''Plumbing''), (''name'', JStr ''Pat'')]]))
      ''Water leaking from the ceiling in bathroom''
     = Inr [(''issue_type'', JStr ''Plumbing Leak''), (''priority'', JStr ''HIGH''),
            (''estimated_cost'', JInt 1500),
            (''status'', JStr ''Waiting for human approval (cost > 1000 AED)''),
            (''vendor'', JStr ''Pat'')]
   \<and> format_response (\<lambda>v. case v of JStr s \<Rightarrow> s | _ \<Rightarrow> ''1500'') ''[tools]''
        [(''issue_type'', JStr ''Plumbing Leak''), (''priority'', JStr ''HIGH''),
         (''estimated_cost'', JInt 1500),
         (''status'', JStr ''Waiting for human approval (cost > 1000 AED)''),
         (''vendor'', JStr ''Pat'')]
     = Inr (''[tools] **Issue Received**'' @ [CHR 0x0A, CHR 0x0A]
            @ ''**Type:** Plumbing Leak'' @ [CHR 0x0A]
            @ ''**Priority:** HIGH'' @ [CHR 0x0A]
            @ ''**Estimated Cost:** AED 1500'' @ [CHR 0x0A, CHR 0x0A]
            @ ''**Status:** Waiting for human approval (cost > 1000 AED)'' @ [CHR 0x0A])"
  (is "mock_analyze_issue ?f ?t = Inr ?d \<and> format_response ?str ?tools ?d = ?shown")
proof -
  have m: "mock_analyze_issue ?f ?t = Inr ?d" by code_simp
  have k: "map_of ?d ''issue_type'' = Some (JStr ''Plumbing Leak'')
      \<and> map_of ?d ''priority'' = Some (JStr ''HIGH'')
      \<and> map_of ?d ''estimated_cost'' = Some (JInt 1500)
      \<and> map_of ?d ''status'' = Some (JStr ''Waiting for human approval (cost > 1000 AED)'')
      \<and> map_of ?d ''vendor'' = Some (JStr ''Pat'')"
    by simp
  have n: "\<not> py_in ''auto-assigned''
             (py_lower ''Waiting for human approval (cost > 1000 AED)'')"
    by code_simp
  from vendor_present_shown_when_assigned
         [of ?f ?t ?d _ _ _ _ ?d "JStr ''Plumbing Leak''" "JStr ''HIGH''" "JInt 1500"
            "''Waiting for human approval (cost > 1000 AED)''" "JStr ''Pat''" ?str ?tools] k
  have "format_response ?str ?tools ?d =
      Inr (?tools @ '' **Issue Received**'' @ [CHR 0x0A, CHR 0x0A]
                 @ ''**Type:** '' @ ?str (JStr ''Plumbing Leak'') @ [CHR 0x0A]
                 @ ''**Priority:** '' @ ?str (JStr ''HIGH'') @ [CHR 0x0A]
                 @ ''**Estimated Cost:** AED '' @ ?str (JInt 1500) @ [CHR 0x0A, CHR 0x0A]
                 @ ''**Status:** '' @ ?str (JStr ''Waiting for human approval (cost > 1000 AED)'')
                 @ [CHR 0x0A]
                 @ (if truthy (JStr ''Pat'') \<and> py_in ''auto-assigned''
                        (py_lower ''Waiting for human approval (cost > 1000 AED)'')
                    then ''**Vendor:** '' @ ?str (JStr ''Pat'') @ [CHR 0x0A] else []))"
    (is "_ = ?long")
    by blast
  moreover have "?long = ?shown"
    using n by simp
  ultimately have "format_response ?str ?tools ?d = ?shown"
    by (rule trans)
  with m show ?thesis by blast
qed

text \<open>
  C10. When the reply decodes to an object whose \<open>estimated_cost\<close> is not a number
  (a text, null, a list, an object), the threshold test raises \<open>TypeError\<close> in the
  decision step, before any vendor is looked up, and \<open>analyze_issue\<close> returns the
  processing-error Decision: not the fallback of a malformed reply, and no exception.
\<close>

theorem uncomparable_cost_processing_error:
  assumes key: "\<not> key_missing (GEMINI_API_KEY sv)"
    and remote: "generate_content sv (full_prompt sv text) = Reply r"
    and parsed: "json_loads sv (clean_response r) = Some (JObj kvs)"
    and cost: "map_of kvs ''estimated_cost'' = Some c"
    and uncomparable: "\<not> is_number c"
  shows "call_gemini sv text = ([GeminiAnalysis (JObj kvs)], Inr (JObj kvs))
         \<and> decision_step (vendors_json sv) (JObj kvs) = ([], Inl TypeError)
         \<and> ai_analyze_issue sv text =
             ([GeminiAnalysis (JObj kvs), AnalyzeError TypeError],
              [(''issue_type'', JStr ''General Maintenance''),
               (''priority'', JStr ''MEDIUM''),
               (''estimated_cost'', JInt 500),
               (''status'', JStr processing_error),
               (''vendor'', JStr ''Auto-assigned vendor'')])"
proof -
  have call: "call_gemini sv text = ([GeminiAnalysis (JObj kvs)], Inr (JObj kvs))"
    using key remote parsed by (simp add: call_gemini_def)
  have step: "decision_step (vendors_json sv) (JObj kvs) = ([], Inl TypeError)"
    unfolding decision_step_obj cost using py_gt_not_number [OF uncomparable] by simp
  have whole: "ai_analyze_issue sv text =
      ([GeminiAnalysis (JObj kvs), AnalyzeError TypeError], processing_error_decision)"
    by (simp add: ai_analyze_issue_def call step)
  show ?thesis
    unfolding whole call step by (simp add: processing_error_decision_def)
qed

theorem uncomparable_cost_processing_error_witness:
  "snd (ai_analyze_issue
        \<lparr>GEMINI_API_KEY = Some ''k'', SYSTEM_PROMPT = ''You are BobTheBot'',
         generate_content = (\<lambda>p. Reply ''{\"estimated_cost\": \"about 1500\"}''),
         json_loads = (\<lambda>s. if s = ''{\"estimated_cost\": \"about 1500\"}''
                            then Some (JObj [(''estimated_cost'', JStr ''about 1500'')])
                            else None),
         vendors_json = LoadRaises FileNotFoundError\<rparr>
        ''Water leaking'')
      = [(''issue_type'', JStr ''General Maintenance''),
         (''priority'', JStr ''MEDIUM''),
         (''estimated_cost'', JInt 500),
         (''status'', JStr ''Processing error - please try again or contact support''),
         (''vendor'', JStr ''Auto-assigned vendor'')]"
  (is "snd (ai_analyze_issue ?sv ?t) = ?d")
proof -
  have k: "\<not> key_missing (GEMINI_API_KEY ?sv)" by (simp add: key_missing_def)
  have r: "generate_content ?sv (full_prompt ?sv ?t) = Reply ''{\"estimated_cost\": \"about 1500\"}''"
    by simp
  have c: "clean_response ''{\"estimated_cost\": \"about 1500\"}'' = ''{\"estimated_cost\": \"about 1500\"}''"
    by code_simp
  have p: "json_loads ?sv (clean_response ''{\"estimated_cost\": \"about 1500\"}'')
            = Some (JObj [(''estimated_cost'', JStr ''about 1500'')])"
    unfolding c by simp
  have m: "map_of [(''estimated_cost'', JStr ''about 1500'')] ''estimated_cost''
            = Some (JStr ''about 1500'')" by simp
  have u: "\<not> is_number (JStr ''about 1500'')" by simp
  from uncomparable_cost_processing_error [OF k r p m u]
  show ?thesis by (simp add: processing_error_def)
qed

end
